theory Spec2Isabelle
  imports Main "HOL-Library.Sublist"
begin

section \<open>The Workers transport: data model\<close>

text \<open>
  The transport of \<^verbatim>\<open>WorkersTransport.ts\<close> answers one HTTP request with one
  response. The interface \<^verbatim>\<open>WorkersTransportOptions\<close> makes every option
  optional, and so are the three fields of \<^verbatim>\<open>cors\<close>: \<open>None\<close> stands for a
  field that is \<^verbatim>\<open>undefined\<close>.
\<close>

record cors_options =
  enabled :: "bool option"
  origins :: "string list option"
  credentials :: "bool option"

text \<open>
  The options handed to the constructor. For a key, \<open>None\<close> says that the object
  does not have it. The key \<^verbatim>\<open>cors\<close> can also be there with the value
  \<^verbatim>\<open>undefined\<close> (\<open>Some None\<close>): \<^verbatim>\<open>WorkersFastMCP\<close> passes
  \<^verbatim>\<open>cors: this.options.cors || this.options.transport?.cors\<close>. Sizes are
  mathematical integers and the timeout is a number of milliseconds.
\<close>

record WorkersTransportOptions =
  given_pathPrefix :: "string option"
  given_cors :: "cors_options option option"
  given_maxBodySize :: "int option"
  given_timeout :: "nat option"

text \<open>
  The field \<^verbatim>\<open>options\<close> of the transport, of the declared type
  \<^verbatim>\<open>Required<WorkersTransportOptions>\<close>. Its \<open>cors\<close> may still be
  \<^verbatim>\<open>undefined\<close> or lack fields, since the constructor merges one level deep.
\<close>

record transport_options =
  pathPrefix :: string
  cors :: "cors_options option"
  maxBodySize :: int
  timeout :: nat

definition DEFAULT_OPTIONS :: transport_options where
  "DEFAULT_OPTIONS =
     \<lparr>pathPrefix = ''/mcp'',
      cors = Some \<lparr>enabled = Some True, origins = Some [''*''], credentials = Some False\<rparr>,
      maxBodySize = 1024 * 1024,
      timeout = 30000\<rparr>"

text \<open>
  The constructor: \<^verbatim>\<open>this.options = { ...DEFAULT_OPTIONS, ...options }\<close>. A key of
  the argument replaces the default as a whole.
\<close>

definition new_WorkersTransport :: "WorkersTransportOptions \<Rightarrow> transport_options" where
  "new_WorkersTransport options =
     \<lparr>pathPrefix = (case given_pathPrefix options of
                       None \<Rightarrow> pathPrefix DEFAULT_OPTIONS | Some p \<Rightarrow> p),
      cors = (case given_cors options of None \<Rightarrow> cors DEFAULT_OPTIONS | Some c \<Rightarrow> c),
      maxBodySize = (case given_maxBodySize options of
                       None \<Rightarrow> maxBodySize DEFAULT_OPTIONS | Some n \<Rightarrow> n),
      timeout = (case given_timeout options of
                   None \<Rightarrow> timeout DEFAULT_OPTIONS | Some ms \<Rightarrow> ms)\<rparr>"

text \<open>
  A request, as far as \<^verbatim>\<open>handleRequest\<close> reads it: the method, the path of the
  URL, the headers (looked up by lower-case name, as \<^verbatim>\<open>Headers.get\<close> does) and
  the text of the body.
\<close>

record Request =
  req_method :: string
  req_pathname :: string
  req_headers :: "string \<rightharpoonup> string"
  req_body :: string

text \<open>
  A response: the status, the headers handed to the \<^verbatim>\<open>Response\<close> constructor
  in the order of the object literal, and the body. \<open>JsonText s\<close> is a serialized
  result; \<open>JsonError c m d\<close> is the serialized envelope
  \<^verbatim>\<open>{error: {code: c, message: m, data: d}}\<close>.
\<close>

datatype body = Empty | Plain string | JsonText string | JsonError int string string

record Response =
  status :: nat
  headers :: "(string \<times> string) list"
  resp_body :: body

fun error_code :: "body \<Rightarrow> int option" where
  "error_code (JsonError c m d) = Some c"
| "error_code _ = None"


fun error_data_field :: "body \<Rightarrow> string option" where
  "error_data_field (JsonError c m d) = Some d"
| "error_data_field _ = None"

text \<open>
  What a \<^verbatim>\<open>catch\<close> clause can receive: an \<^verbatim>\<open>Error\<close> object with its
  message and its stack text; any other thrown value, kept as the string that
  \<^verbatim>\<open>String(error)\<close> makes of it; or a thrown value for which
  \<^verbatim>\<open>String(error)\<close> itself throws (an object without a usable
  \<^verbatim>\<open>toString\<close>).
\<close>

datatype thrown = ErrorObj string string | NonError string | Unprintable

text \<open>
  \<^verbatim>\<open>new Error(msg)\<close> and the \<^verbatim>\<open>TypeError\<close> that the engine raises: the
  stack text starts with the header line; the frames after it depend on the engine
  and are left out.
\<close>

definition new_Error :: "string \<Rightarrow> thrown" where
  "new_Error msg = ErrorObj msg (''Error: '' @ msg)"

definition TypeError :: "string \<Rightarrow> thrown" where
  "TypeError msg = ErrorObj msg (''TypeError: '' @ msg)"

text \<open>
  \<^verbatim>\<open>error instanceof Error ? error.message : String(error)\<close>, with the
  exception of \<^verbatim>\<open>String\<close> as \<open>Inl\<close>.
\<close>

fun error_data :: "thrown \<Rightarrow> thrown + string" where
  "error_data (ErrorObj msg stk) = Inr msg"
| "error_data (NonError s) = Inr s"
| "error_data Unprintable = Inl (TypeError ''Cannot convert object to primitive value'')"

section \<open>CORS\<close>

text \<open>
  \<^verbatim>\<open>getCorsHeaders\<close>. Reading \<^verbatim>\<open>this.options.cors.enabled\<close> throws when
  \<^verbatim>\<open>cors\<close> is undefined; an \<^verbatim>\<open>enabled\<close> that is undefined or false
  gives no headers. Otherwise the two fixed headers come first;
  \<^verbatim>\<open>origins.includes('*')\<close> throws when \<^verbatim>\<open>origins\<close> is undefined; then
  the allow-origin header (the wildcard, or the request's non-empty origin when the
  list holds it) and the credentials header.
\<close>

definition getCorsHeaders ::
  "transport_options \<Rightarrow> Request \<Rightarrow> thrown + (string \<times> string) list" where
  "getCorsHeaders opts request =
     (case cors opts of
        None \<Rightarrow> Inl (TypeError ''Cannot read properties of undefined (reading 'enabled')'')
      | Some c \<Rightarrow>
          if enabled c \<noteq> Some True then Inr []
          else
            (case origins c of
               None \<Rightarrow>
                 Inl (TypeError ''Cannot read properties of undefined (reading 'includes')'')
             | Some allowed \<Rightarrow>
                 Inr ([(''Access-Control-Allow-Methods'', ''POST, OPTIONS''),
                       (''Access-Control-Allow-Headers'', ''Content-Type, Authorization'')]
                      @ (if ''*'' \<in> set allowed then [(''Access-Control-Allow-Origin'', ''*'')]
                         else (case req_headers request ''origin'' of
                                 None \<Rightarrow> []
                               | Some origin \<Rightarrow>
                                   if origin \<noteq> [] \<and> origin \<in> set allowed
                                   then [(''Access-Control-Allow-Origin'', origin)] else []))
                      @ (if credentials c = Some True
                         then [(''Access-Control-Allow-Credentials'', ''true'')] else []))))"

text \<open>
  \<^verbatim>\<open>handleCors\<close>: the answer to a preflight request, or the exception that
  reading the options raises.
\<close>

definition handleCors :: "transport_options \<Rightarrow> Request \<Rightarrow> thrown + Response" where
  "handleCors opts request =
     (case cors opts of
        None \<Rightarrow> Inl (TypeError ''Cannot read properties of undefined (reading 'enabled')'')
      | Some c \<Rightarrow>
          if enabled c \<noteq> Some True
          then Inr \<lparr>status = 403, headers = [], resp_body = Plain ''CORS disabled''\<rparr>
          else
            (case getCorsHeaders opts request of
               Inl e \<Rightarrow> Inl e
             | Inr hs \<Rightarrow> Inr \<lparr>status = 204, headers = hs, resp_body = Empty\<rparr>))"

section \<open>The exchange: one promise and one deadline timer\<close>

text \<open>
  \<^verbatim>\<open>processMessage\<close> creates a promise and arms a timer. What the promise comes
  to is its fate: fulfilled with a value, rejected with an error, or pending for ever.
\<close>

datatype timer = Armed | Cleared | Fired

datatype 'v fate = Fulfilled 'v | Rejected thrown | Forever

text \<open>
  What a handler passes to the completion sink: a plain value, or a thenable (a
  promise, say) with the fate that it comes to.
\<close>

datatype 'v sink_arg = Value 'v | Thenable "'v fate"

text \<open>
  The slot is empty until the promise is resolved or rejected for the first time;
  later calls of \<^verbatim>\<open>resolve\<close> and \<^verbatim>\<open>reject\<close> do nothing. Resolving with a
  plain value fulfils the promise; resolving with a thenable ties the promise to the
  fate of the thenable. The timer is armed, cleared by \<^verbatim>\<open>clearTimeout\<close>, or
  has fired.
\<close>

record 'v exchange =
  slot :: "'v fate option"
  deadline :: timer

definition new_exchange :: "'v exchange" where
  "new_exchange = \<lparr>slot = None, deadline = Armed\<rparr>"

definition resolve :: "'v sink_arg \<Rightarrow> 'v exchange \<Rightarrow> 'v exchange" where
  "resolve a ex =
     (case slot ex of
        None \<Rightarrow> ex\<lparr>slot := Some (case a of Value v \<Rightarrow> Fulfilled v | Thenable f \<Rightarrow> f)\<rparr>
      | Some r \<Rightarrow> ex)"

definition reject :: "thrown \<Rightarrow> 'v exchange \<Rightarrow> 'v exchange" where
  "reject e ex = (case slot ex of None \<Rightarrow> ex\<lparr>slot := Some (Rejected e)\<rparr> | Some r \<Rightarrow> ex)"

definition clearTimeout :: "'v exchange \<Rightarrow> 'v exchange" where
  "clearTimeout ex = (if deadline ex = Armed then ex\<lparr>deadline := Cleared\<rparr> else ex)"

text \<open>The completion sink handed to every handler as \<^verbatim>\<open>_responseHandler\<close>.\<close>

definition responseHandler :: "'v sink_arg \<Rightarrow> 'v exchange \<Rightarrow> 'v exchange" where
  "responseHandler response ex = resolve response (clearTimeout ex)"

text \<open>The callback of the deadline timer; a cleared timer never runs it.\<close>

definition timer_fires :: "'v exchange \<Rightarrow> 'v exchange" where
  "timer_fires ex =
     (if deadline ex = Armed
      then reject (new_Error ''Request timeout'') (ex\<lparr>deadline := Fired\<rparr>)
      else ex)"

text \<open>
  What one handler does when it is called with a message: what it passes to the sink
  before it returns, the exception it ends with (if any), and the sink calls it makes
  later (as the engine does through \<^verbatim>\<open>send\<close>), each with the time in
  milliseconds after the broadcast.
\<close>

record 'v behaviour =
  sync_calls :: "'v sink_arg list"
  raises :: "thrown option"
  later_calls :: "(nat \<times> 'v sink_arg) list"

type_synonym ('m, 'e, 'v) handler = "'m \<Rightarrow> 'e \<Rightarrow> 'v behaviour"

text \<open>
  One turn of the \<^verbatim>\<open>forEach\<close> loop: the handler runs inside \<^verbatim>\<open>try\<close>; an
  exception clears the timer and rejects the promise, and the loop goes on.
\<close>

definition invoke :: "'v behaviour \<Rightarrow> 'v exchange \<Rightarrow> 'v exchange" where
  "invoke b ex =
     (let ex1 = fold responseHandler (sync_calls b) ex
      in case raises b of
           None \<Rightarrow> ex1
         | Some e \<Rightarrow> reject e (clearTimeout ex1))"

definition broadcast :: "('m, 'e, 'v) handler list \<Rightarrow> 'm \<Rightarrow> 'e \<Rightarrow> 'v exchange \<Rightarrow> 'v exchange" where
  "broadcast handlers message env ex = fold (\<lambda>handler. invoke (handler message env)) handlers ex"

text \<open>
  The things that happen to an exchange: a handler throws during the broadcast, the
  deadline timer fires, the sink is called.
\<close>

datatype 'v event = HandlerThrew thrown | DeadlineTimer | SinkCall "'v sink_arg"

fun step :: "'v event \<Rightarrow> 'v exchange \<Rightarrow> 'v exchange" where
  "step (HandlerThrew e) ex = reject e (clearTimeout ex)"
| "step DeadlineTimer ex = timer_fires ex"
| "step (SinkCall a) ex = responseHandler a ex"

text \<open>
  After the broadcast the event loop runs the pending callbacks in the order of their
  times; the deadline timer was registered first, so it precedes a sink call due at
  the same millisecond.
\<close>

definition schedule :: "nat \<Rightarrow> 'v behaviour list \<Rightarrow> 'v event list" where
  "schedule ms bs =
     map snd (sort_key fst ((ms, DeadlineTimer) #
                            concat (map (\<lambda>b. map (\<lambda>(t, a). (t, SinkCall a)) (later_calls b)) bs)))"

text \<open>
  The effects of a request that a caller can observe besides the response: reading the
  body, calling the handler at a position of the registry, and the error log.
\<close>

datatype effect = ReadBody | Invoke nat | ConsoleError thrown

text \<open>
  \<^verbatim>\<open>processMessage\<close>: the handlers called, and the fate of the promise it
  returns (\<open>None\<close> if nothing ever resolves or rejects it).
\<close>

definition processMessage ::
  "transport_options \<Rightarrow> ('m, 'e, 'v) handler list \<Rightarrow> 'm \<Rightarrow> 'e
     \<Rightarrow> effect list \<times> 'v fate option" where
  "processMessage opts handlers message env =
     (let ex1 = broadcast handlers message env new_exchange;
          ex2 = fold step (schedule (timeout opts) (map (\<lambda>handler. handler message env) handlers)) ex1
      in (map Invoke [0..<length handlers], slot ex2))"

section \<open>Request handling\<close>

text \<open>
  \<^verbatim>\<open>parseInt\<close> on a header value (a string of bytes): leading white space, a
  sign, the prefix \<^verbatim>\<open>0x\<close> for radix 16, then the longest run of digits; no digit
  gives \<^verbatim>\<open>NaN\<close>, here \<open>None\<close>. The value is exact, as the engine's is below
  \<open>2 ^ 53\<close>.
\<close>

definition is_white_space :: "char \<Rightarrow> bool" where
  "is_white_space c = (of_char c \<in> {9, 10, 11, 12, 13, 32, 160 :: nat})"

definition digit_value :: "char \<Rightarrow> nat option" where
  "digit_value c =
     (let n = of_char c :: nat
      in if 48 \<le> n \<and> n \<le> 57 then Some (n - 48)
         else if 97 \<le> n \<and> n \<le> 122 then Some (n - 87)
         else if 65 \<le> n \<and> n \<le> 90 then Some (n - 55)
         else None)"

definition is_digit :: "nat \<Rightarrow> char \<Rightarrow> bool" where
  "is_digit radix c = (case digit_value c of None \<Rightarrow> False | Some d \<Rightarrow> d < radix)"

definition digits_value :: "nat \<Rightarrow> string \<Rightarrow> nat" where
  "digits_value radix ds =
     foldl (\<lambda>acc c. acc * radix + (case digit_value c of None \<Rightarrow> 0 | Some d \<Rightarrow> d)) 0 ds"

definition parseInt :: "string \<Rightarrow> int option" where
  "parseInt s =
     (let s1 = dropWhile is_white_space s;
          negative = (s1 \<noteq> [] \<and> hd s1 = CHR ''-'');
          s2 = (if s1 \<noteq> [] \<and> (hd s1 = CHR ''-'' \<or> hd s1 = CHR ''+'') then tl s1 else s1);
          hex = (prefix ''0x'' s2 \<or> prefix ''0X'' s2);
          radix = (if hex then 16 else 10);
          s3 = (if hex then drop 2 s2 else s2);
          ds = takeWhile (is_digit radix) s3
      in if ds = [] then None
         else Some ((if negative then - 1 else 1) * int (digits_value radix ds)))"

text \<open>\<^verbatim>\<open>!contentType || !contentType.includes('application/json')\<close>, negated.\<close>

definition json_content_type :: "Request \<Rightarrow> bool" where
  "json_content_type request =
     (case req_headers request ''content-type'' of
        None \<Rightarrow> False
      | Some contentType \<Rightarrow> sublist ''application/json'' contentType)"

text \<open>\<^verbatim>\<open>contentLength && parseInt(contentLength) > this.options.maxBodySize\<close>\<close>

definition too_large :: "transport_options \<Rightarrow> Request \<Rightarrow> bool" where
  "too_large opts request =
     (case req_headers request ''content-length'' of
        None \<Rightarrow> False
      | Some contentLength \<Rightarrow>
          (case parseInt contentLength of
             None \<Rightarrow> False
           | Some n \<Rightarrow> n > maxBodySize opts))"

text \<open>
  The \<^verbatim>\<open>catch\<close> clause of \<^verbatim>\<open>handleRequest\<close>, after the error is logged:
  the body is built first, then the headers; an exception of either leaves the
  request without a response.
\<close>

definition internal_error :: "transport_options \<Rightarrow> Request \<Rightarrow> thrown \<Rightarrow> thrown + Response" where
  "internal_error opts request e =
     (case error_data e of
        Inl t \<Rightarrow> Inl t
      | Inr d \<Rightarrow>
          (case getCorsHeaders opts request of
             Inl t \<Rightarrow> Inl t
           | Inr hs \<Rightarrow>
               Inr \<lparr>status = 500,
                    headers = (''Content-Type'', ''application/json'') # hs,
                    resp_body = JsonError (- 32603) ''Internal error'' d\<rparr>))"

text \<open>
  \<^verbatim>\<open>handleRequest\<close>. The two JSON functions of the runtime are parameters:
  \<open>parse\<close> is \<^verbatim>\<open>JSON.parse\<close> (\<open>None\<close> when it throws) and \<open>stringify\<close> is
  \<^verbatim>\<open>JSON.stringify\<close> (\<open>Inl\<close> the exception when it throws). The result is the
  list of effects and what the caller gets: \<open>Some (Inr response)\<close>, or
  \<open>Some (Inl e)\<close> when the function ends with the exception \<open>e\<close>, or \<open>None\<close> when
  the awaited promise stays pending for ever. The preflight branch and the path check
  are outside \<^verbatim>\<open>try\<close>; an exception of \<^verbatim>\<open>getCorsHeaders\<close> inside it is
  caught, and the \<^verbatim>\<open>catch\<close> clause calls \<^verbatim>\<open>getCorsHeaders\<close> again.
\<close>

definition handleRequest ::
  "transport_options \<Rightarrow> (string \<Rightarrow> 'm option) \<Rightarrow> ('v \<Rightarrow> thrown + string)
     \<Rightarrow> ('m, 'e, 'v) handler list \<Rightarrow> Request \<Rightarrow> 'e
     \<Rightarrow> effect list \<times> (thrown + Response) option" where
  "handleRequest opts parse stringify handlers request env =
     (if req_method request = ''OPTIONS'' then ([], Some (handleCors opts request))
      else if \<not> prefix (pathPrefix opts) (req_pathname request)
      then ([], Some (Inr \<lparr>status = 404, headers = [], resp_body = Plain ''Not Found''\<rparr>))
      else if req_method request \<noteq> ''POST''
      then ([], Some (Inr \<lparr>status = 405, headers = [(''Allow'', ''POST, OPTIONS'')],
                           resp_body = Plain ''Method Not Allowed''\<rparr>))
      else if \<not> json_content_type request
      then ([], Some (Inr \<lparr>status = 400, headers = [],
                           resp_body =
                             Plain ''Bad Request: Content-Type must be application/json''\<rparr>))
      else if too_large opts request
      then ([], Some (Inr \<lparr>status = 413, headers = [],
                           resp_body = Plain ''Payload Too Large''\<rparr>))
      else
        (case parse (req_body request) of
           None \<Rightarrow>
             ([ReadBody], Some (Inr \<lparr>status = 400, headers = [],
                                    resp_body = Plain ''Bad Request: Invalid JSON''\<rparr>))
         | Some message \<Rightarrow>
             (case processMessage opts handlers message env of
                (calls, None) \<Rightarrow> (ReadBody # calls, None)
              | (calls, Some Forever) \<Rightarrow> (ReadBody # calls, None)
              | (calls, Some (Rejected e)) \<Rightarrow>
                  (ReadBody # calls @ [ConsoleError e], Some (internal_error opts request e))
              | (calls, Some (Fulfilled response)) \<Rightarrow>
                  (case stringify response of
                     Inl e \<Rightarrow>
                       (ReadBody # calls @ [ConsoleError e], Some (internal_error opts request e))
                   | Inr text \<Rightarrow>
                       (case getCorsHeaders opts request of
                          Inl e \<Rightarrow>
                            (ReadBody # calls @ [ConsoleError e],
                             Some (internal_error opts request e))
                        | Inr hs \<Rightarrow>
                            (ReadBody # calls,
                             Some (Inr \<lparr>status = 200,
                                        headers = (''Content-Type'', ''application/json'') # hs,
                                        resp_body = JsonText text\<rparr>)))))))"

section \<open>Conditions on requests and handlers\<close>

text \<open>
  A request that passes every check of \<^verbatim>\<open>handleRequest\<close> and whose body
  parses to \<open>message\<close>.
\<close>

definition accepted ::
  "transport_options \<Rightarrow> (string \<Rightarrow> 'm option) \<Rightarrow> Request \<Rightarrow> 'm \<Rightarrow> bool" where
  "accepted opts parse request message =
     (req_method request = ''POST'' \<and> prefix (pathPrefix opts) (req_pathname request)
      \<and> json_content_type request \<and> \<not> too_large opts request
      \<and> parse (req_body request) = Some message)"

text \<open>A handler call that neither reaches the sink nor throws before it returns.\<close>

definition quiet :: "'v behaviour \<Rightarrow> bool" where
  "quiet b = (sync_calls b = [] \<and> raises b = None)"

text \<open>A handler call that does not reach the sink in the first \<open>ms\<close> milliseconds.\<close>

definition no_call_before :: "nat \<Rightarrow> 'v behaviour \<Rightarrow> bool" where
  "no_call_before ms b = (sync_calls b = [] \<and> list_all (\<lambda>(t, a). ms \<le> t) (later_calls b))"

text \<open>The same handler with its later sink calls left out.\<close>

definition without_later_calls :: "('m, 'e, 'v) handler \<Rightarrow> ('m, 'e, 'v) handler" where
  "without_later_calls handler message env = (handler message env)\<lparr>later_calls := []\<rparr>"

text \<open>
  What one handler call does to the exchange before it returns, and everything that
  happens to the exchange of one message, in the order in which it happens: the
  handlers in the order of the registry, then the pending callbacks.
\<close>

definition sync_events :: "'v behaviour \<Rightarrow> 'v event list" where
  "sync_events b =
     map SinkCall (sync_calls b) @ (case raises b of None \<Rightarrow> [] | Some e \<Rightarrow> [HandlerThrew e])"

definition events :: "nat \<Rightarrow> 'v behaviour list \<Rightarrow> 'v event list" where
  "events ms bs = concat (map sync_events bs) @ schedule ms bs"

section \<open>Sample requests, options and handlers\<close>

definition post_request :: Request where
  "post_request =
     \<lparr>req_method = ''POST'', req_pathname = ''/mcp'',
      req_headers = [''content-type'' \<mapsto> ''application/json''],
      req_body = ''{}''\<rparr>"

definition get_request :: Request where
  "get_request =
     \<lparr>req_method = ''GET'', req_pathname = ''/mcp'', req_headers = Map.empty, req_body = []\<rparr>"

definition get_unrelated :: Request where
  "get_unrelated =
     \<lparr>req_method = ''GET'', req_pathname = ''/unrelated'', req_headers = Map.empty,
      req_body = []\<rparr>"

definition oversized_request :: Request where
  "oversized_request =
     \<lparr>req_method = ''POST'', req_pathname = ''/mcp'',
      req_headers = [''content-length'' \<mapsto> ''2000000''],
      req_body = ''{}''\<rparr>"

definition oversized_json_request :: Request where
  "oversized_json_request =
     \<lparr>req_method = ''POST'', req_pathname = ''/mcp'',
      req_headers = [''content-type'' \<mapsto> ''application/json'',
                     ''content-length'' \<mapsto> ''2000000''],
      req_body = ''{}''\<rparr>"

definition options_request :: Request where
  "options_request =
     \<lparr>req_method = ''OPTIONS'', req_pathname = ''/mcp'',
      req_headers = [''origin'' \<mapsto> ''https://b.com''], req_body = []\<rparr>"

definition options_elsewhere :: Request where
  "options_elsewhere =
     \<lparr>req_method = ''OPTIONS'', req_pathname = ''/other'',
      req_headers = [''origin'' \<mapsto> ''https://a.com''], req_body = []\<rparr>"

definition list_options :: transport_options where
  "list_options =
     \<lparr>pathPrefix = ''/mcp'',
      cors = Some \<lparr>enabled = Some True, origins = Some [''https://a.com''],
                   credentials = Some True\<rparr>,
      maxBodySize = 1024 * 1024,
      timeout = 50\<rparr>"


text \<open>
  \<^verbatim>\<open>new WorkersTransport({ cors: { enabled: true } })\<close>, and the transport that
  \<^verbatim>\<open>WorkersFastMCP\<close> makes from \<^verbatim>\<open>transport: { pathPrefix: '/mcp' }\<close>
  with no \<^verbatim>\<open>cors\<close> of its own.
\<close>

definition enabled_only :: WorkersTransportOptions where
  "enabled_only =
     \<lparr>given_pathPrefix = None,
      given_cors = Some (Some \<lparr>enabled = Some True, origins = None, credentials = None\<rparr>),
      given_maxBodySize = None,
      given_timeout = None\<rparr>"

definition cors_undefined :: WorkersTransportOptions where
  "cors_undefined =
     \<lparr>given_pathPrefix = Some ''/mcp'',
      given_cors = Some None,
      given_maxBodySize = None,
      given_timeout = None\<rparr>"

definition silent_handler :: "(string, unit, string) handler" where
  "silent_handler message env = \<lparr>sync_calls = [], raises = None, later_calls = []\<rparr>"

definition late_handler :: "(string, unit, string) handler" where
  "late_handler message env =
     \<lparr>sync_calls = [], raises = None,
      later_calls = [(50, Value ''late''), (75, Value ''later'')]\<rparr>"

definition replying_handler :: "(string, unit, string) handler" where
  "replying_handler message env =
     \<lparr>sync_calls = [Value ''first'', Value ''second''], raises = None,
      later_calls = [(10, Value ''third'')]\<rparr>"

text \<open>
  A handler as \<^verbatim>\<open>WorkersFastMCP\<close> registers it: it forwards the message and
  returns; the engine answers later through \<^verbatim>\<open>send\<close>, here after 20 ms and,
  once more, after 30 ms.
\<close>

definition engine_handler :: "(string, unit, string) handler" where
  "engine_handler message env =
     \<lparr>sync_calls = [], raises = None,
      later_calls = [(30, Value ''again''), (20, Value ''answer'')]\<rparr>"

definition failing_handler :: "(string, unit, string) handler" where
  "failing_handler message env =
     \<lparr>sync_calls = [], raises = Some (ErrorObj ''boom'' ''Error: boom at handler''),
      later_calls = []\<rparr>"


section \<open>A settled exchange no longer changes\<close>

lemma frozen_responseHandler:
  "slot ex \<noteq> None \<Longrightarrow> deadline ex \<noteq> Armed \<Longrightarrow> responseHandler a ex = ex"
  by (auto simp add: responseHandler_def resolve_def clearTimeout_def)

lemma frozen_step:
  "slot ex \<noteq> None \<Longrightarrow> deadline ex \<noteq> Armed \<Longrightarrow> step ev ex = ex"
  by (cases ev)
     (auto simp add: frozen_responseHandler reject_def clearTimeout_def timer_fires_def)

lemma frozen_fold_step:
  "slot ex \<noteq> None \<Longrightarrow> deadline ex \<noteq> Armed \<Longrightarrow> fold step evs ex = ex"
  by (induction evs) (simp_all add: frozen_step)

lemma responseHandler_frozen:
  "slot (responseHandler a ex) \<noteq> None \<and> deadline (responseHandler a ex) \<noteq> Armed"
  by (simp add: responseHandler_def resolve_def clearTimeout_def split: option.splits)

lemma responseHandler_new_exchange:
  "responseHandler a new_exchange =
     \<lparr>slot = Some (case a of Value v \<Rightarrow> Fulfilled v | Thenable f \<Rightarrow> f), deadline = Cleared\<rparr>"
  by (simp add: responseHandler_def resolve_def clearTimeout_def new_exchange_def)

lemma handler_threw_new_exchange:
  "reject e (clearTimeout new_exchange) = \<lparr>slot = Some (Rejected e), deadline = Cleared\<rparr>"
  by (simp add: reject_def clearTimeout_def new_exchange_def)

lemma timer_fires_new_exchange:
  "timer_fires new_exchange =
     \<lparr>slot = Some (Rejected (new_Error ''Request timeout'')), deadline = Fired\<rparr>"
  by (simp add: timer_fires_def new_exchange_def reject_def)

lemma first_step_settles:
  "slot (step ev new_exchange) \<noteq> None \<and> deadline (step ev new_exchange) \<noteq> Armed"
  by (cases ev)
     (simp_all add: responseHandler_new_exchange handler_threw_new_exchange
        timer_fires_new_exchange)

lemma first_event_wins:
  "fold step (ev # evs) new_exchange = step ev new_exchange"
  using first_step_settles[of ev] by (simp add: frozen_fold_step)

section \<open>The broadcast and the callbacks as one sequence of events\<close>

lemma fold_responseHandler_events:
  "fold responseHandler as ex = fold step (map SinkCall as) ex"
  by (induction as arbitrary: ex) simp_all

lemma invoke_events: "invoke b ex = fold step (sync_events b) ex"
  by (cases "raises b") (simp_all add: invoke_def sync_events_def fold_responseHandler_events)

lemma broadcast_events:
  "broadcast hs m env ex = fold step (concat (map (\<lambda>h. sync_events (h m env)) hs)) ex"
  unfolding broadcast_def
  by (induction hs arbitrary: ex) (simp_all add: invoke_events)

lemma frozen_broadcast:
  "slot ex \<noteq> None \<Longrightarrow> deadline ex \<noteq> Armed \<Longrightarrow> broadcast hs m env ex = ex"
  by (simp add: broadcast_events frozen_fold_step)

lemma processMessage_events:
  "processMessage opts hs m env =
     (map Invoke [0..<length hs],
      slot (fold step (events (timeout opts) (map (\<lambda>h. h m env) hs)) new_exchange))"
  by (simp add: processMessage_def Let_def broadcast_events events_def comp_def)

lemma processMessage_first_sink_call:
  "events (timeout opts) (map (\<lambda>h. h m env) hs) = SinkCall a # evs \<Longrightarrow>
     processMessage opts hs m env =
       (map Invoke [0..<length hs],
        Some (case a of Value v \<Rightarrow> Fulfilled v | Thenable f \<Rightarrow> f))"
  by (simp only: processMessage_events first_event_wins step.simps responseHandler_new_exchange)
     simp

lemma processMessage_first_throw:
  "events (timeout opts) (map (\<lambda>h. h m env) hs) = HandlerThrew e # evs \<Longrightarrow>
     processMessage opts hs m env = (map Invoke [0..<length hs], Some (Rejected e))"
  by (simp only: processMessage_events first_event_wins step.simps handler_threw_new_exchange)
     simp

lemma processMessage_first_deadline:
  "events (timeout opts) (map (\<lambda>h. h m env) hs) = DeadlineTimer # evs \<Longrightarrow>
     processMessage opts hs m env =
       (map Invoke [0..<length hs], Some (Rejected (new_Error ''Request timeout'')))"
  by (simp only: processMessage_events first_event_wins step.simps timer_fires_new_exchange)
     simp

section \<open>The first event of an exchange\<close>

lemma schedule_deadline_first:
  assumes "\<forall>b\<in>set bs. list_all (\<lambda>(t, a). ms \<le> t) (later_calls b)"
  shows "\<exists>evs. schedule ms bs = DeadlineTimer # evs"
proof -
  let ?L = "concat (map (\<lambda>b. map (\<lambda>(t, a). (t, SinkCall a)) (later_calls b)) bs)"
  have "\<forall>x\<in>set (sort_key fst ?L). fst (ms, DeadlineTimer) \<le> fst x"
    using assms by (fastforce simp add: list_all_iff)
  then have "insort_key fst (ms, DeadlineTimer) (sort_key fst ?L)
               = (ms, DeadlineTimer) # sort_key fst ?L"
    by (rule insort_is_Cons)
  then show ?thesis
    by (simp add: schedule_def)
qed

lemma sync_events_quiet: "quiet b \<Longrightarrow> sync_events b = []"
  by (simp add: quiet_def sync_events_def)

lemma concat_sync_events_quiet:
  "\<forall>b\<in>set bs. quiet b \<Longrightarrow> concat (map sync_events bs) = []"
  by (induction bs) (simp_all add: sync_events_quiet)


lemma events_all_quiet:
  "\<forall>b\<in>set bs. quiet b \<Longrightarrow> events ms bs = schedule ms bs"
  by (simp add: events_def concat_sync_events_quiet)


lemma events_deadline_first:
  assumes "\<forall>b\<in>set bs. no_call_before ms b" and "\<forall>b\<in>set bs. raises b = None"
  shows "\<exists>evs. events ms bs = DeadlineTimer # evs"
proof -
  from assms have "\<forall>b\<in>set bs. quiet b"
    by (simp add: quiet_def no_call_before_def)
  then have "events ms bs = schedule ms bs"
    by (rule events_all_quiet)
  moreover from assms(1) have "\<forall>b\<in>set bs. list_all (\<lambda>(t, a). ms \<le> t) (later_calls b)"
    by (simp add: no_call_before_def)
  then have "\<exists>evs. schedule ms bs = DeadlineTimer # evs"
    by (rule schedule_deadline_first)
  ultimately show ?thesis by simp
qed


section \<open>Whole requests\<close>

lemma handleRequest_rejected:
  assumes "accepted opts parse request message"
    and "processMessage opts handlers message env = (calls, Some (Rejected e))"
  shows "handleRequest opts parse stringify handlers request env =
           (ReadBody # calls @ [ConsoleError e], Some (internal_error opts request e))"
  using assms by (simp add: accepted_def handleRequest_def)

lemma handleRequest_fulfilled:
  assumes "accepted opts parse request message"
    and "processMessage opts handlers message env = (calls, Some (Fulfilled v))"
    and "stringify v = Inr serialized"
    and "getCorsHeaders opts request = Inr hs"
  shows "handleRequest opts parse stringify handlers request env =
           (ReadBody # calls,
            Some (Inr \<lparr>status = 200,
                       headers = (''Content-Type'', ''application/json'') # hs,
                       resp_body = JsonText serialized\<rparr>))"
  using assms by (simp add: accepted_def handleRequest_def)


lemma handleRequest_deadline:
  assumes "accepted opts parse request message"
    and "\<forall>h\<in>set handlers. no_call_before (timeout opts) (h message env)"
    and "\<forall>h\<in>set handlers. raises (h message env) = None"
  shows "handleRequest opts parse stringify handlers request env =
           (ReadBody # map Invoke [0..<length handlers]
              @ [ConsoleError (new_Error ''Request timeout'')],
            Some (internal_error opts request (new_Error ''Request timeout'')))"
proof -
  from assms(2,3) obtain evs where
    "events (timeout opts) (map (\<lambda>h. h message env) handlers) = DeadlineTimer # evs"
    using events_deadline_first[of "map (\<lambda>h. h message env) handlers" "timeout opts"]
    by auto
  then have "processMessage opts handlers message env =
       (map Invoke [0..<length handlers], Some (Rejected (new_Error ''Request timeout'')))"
    by (rule processMessage_first_deadline)
  with assms(1) show ?thesis
    by (rule handleRequest_rejected)
qed

section \<open>Facts about the sample requests\<close>

lemma accepted_post_request: "accepted list_options Some post_request ''{}''"
  by (simp add: accepted_def list_options_def post_request_def json_content_type_def
      too_large_def sublist_code)

lemma accepted_post_request_default: "accepted DEFAULT_OPTIONS Some post_request ''{}''"
  by (simp add: accepted_def DEFAULT_OPTIONS_def post_request_def json_content_type_def
      too_large_def sublist_code)


lemma cors_list_options_post:
  "getCorsHeaders list_options post_request =
     Inr [(''Access-Control-Allow-Methods'', ''POST, OPTIONS''),
          (''Access-Control-Allow-Headers'', ''Content-Type, Authorization''),
          (''Access-Control-Allow-Credentials'', ''true'')]"
  by (simp add: getCorsHeaders_def list_options_def post_request_def)

lemma cors_default_options:
  "getCorsHeaders DEFAULT_OPTIONS request =
     Inr [(''Access-Control-Allow-Methods'', ''POST, OPTIONS''),
          (''Access-Control-Allow-Headers'', ''Content-Type, Authorization''),
          (''Access-Control-Allow-Origin'', ''*'')]"
  by (simp add: getCorsHeaders_def DEFAULT_OPTIONS_def)

lemma parseInt_2000000: "parseInt ''2000000'' = Some 2000000"
  by (simp add: parseInt_def is_white_space_def is_digit_def digit_value_def digits_value_def)

lemma events_sync_first:
  "events (timeout list_options)
      (map (\<lambda>h. h ''{}'' ()) [silent_handler, replying_handler, failing_handler, late_handler])
     = SinkCall (Value ''first'') #
       [SinkCall (Value ''second''),
        HandlerThrew (ErrorObj ''boom'' ''Error: boom at handler''),
        SinkCall (Value ''third''), DeadlineTimer,
        SinkCall (Value ''late''), SinkCall (Value ''later'')]"
  by (simp add: events_def sync_events_def schedule_def list_options_def silent_handler_def
      replying_handler_def failing_handler_def late_handler_def)

lemma events_async_first:
  "events (timeout list_options) (map (\<lambda>h. h ''{}'' ()) [engine_handler, late_handler])
     = SinkCall (Value ''answer'') #
       [SinkCall (Value ''again''), DeadlineTimer,
        SinkCall (Value ''late''), SinkCall (Value ''later'')]"
  by (simp add: events_def sync_events_def schedule_def list_options_def engine_handler_def
      late_handler_def)

section \<open>Preflight requests and rejections\<close>

lemma preflight_with_origin_list:
  assumes "req_method request = ''OPTIONS''"
    and "cors opts = Some c" and "origins c = Some allowed"
  shows "\<exists>hs. getCorsHeaders opts request = Inr hs
           \<and> handleRequest opts parse stringify handlers request env =
               ([], Some (Inr (if enabled c = Some True
                               then \<lparr>status = 204, headers = hs, resp_body = Empty\<rparr>
                               else \<lparr>status = 403, headers = [],
                                     resp_body = Plain ''CORS disabled''\<rparr>)))"
  using assms by (simp add: handleRequest_def handleCors_def getCorsHeaders_def)

lemma preflight_before_path_check:
  "req_method request = ''OPTIONS'' \<Longrightarrow>
     handleRequest opts parse stringify handlers request env =
       ([], Some (handleCors opts request))"
  by (simp add: handleRequest_def)

lemma headers_of_rejections:
  assumes "snd (handleRequest opts parse stringify handlers request env) = Some (Inr resp)"
    and "status resp \<notin> {200, 204, 500}"
  shows "headers resp = [] \<or> headers resp = [(''Allow'', ''POST, OPTIONS'')]"
proof (cases "\<exists>message. accepted opts parse request message")
  case True
  then obtain message where acc: "accepted opts parse request message" ..
  obtain calls r where pm: "processMessage opts handlers message env = (calls, r)"
    by (cases "processMessage opts handlers message env")
  from acc have unfold: "handleRequest opts parse stringify handlers request env =
      (case processMessage opts handlers message env of
         (calls, None) \<Rightarrow> (ReadBody # calls, None)
       | (calls, Some Forever) \<Rightarrow> (ReadBody # calls, None)
       | (calls, Some (Rejected e)) \<Rightarrow>
           (ReadBody # calls @ [ConsoleError e], Some (internal_error opts request e))
       | (calls, Some (Fulfilled response)) \<Rightarrow>
           (case stringify response of
              Inl e \<Rightarrow>
                (ReadBody # calls @ [ConsoleError e], Some (internal_error opts request e))
            | Inr text \<Rightarrow>
                (case getCorsHeaders opts request of
                   Inl e \<Rightarrow>
                     (ReadBody # calls @ [ConsoleError e],
                      Some (internal_error opts request e))
                 | Inr hs \<Rightarrow>
                     (ReadBody # calls,
                      Some (Inr \<lparr>status = 200,
                                 headers = (''Content-Type'', ''application/json'') # hs,
                                 resp_body = JsonText text\<rparr>)))))"
    by (simp add: accepted_def handleRequest_def)
  have ie: "internal_error opts request e = Inr resp \<Longrightarrow> status resp = 500" for e
    by (auto simp add: internal_error_def split: sum.splits)
  from assms show ?thesis
    by (auto simp add: unfold pm dest: ie split: option.splits fate.splits sum.splits)
next
  case False
  with assms show ?thesis
    by (cases "parse (req_body request)")
       (auto simp add: handleRequest_def accepted_def handleCors_def
          split: if_splits option.splits sum.splits)
qed

section \<open>The claims\<close>

subsection \<open>C1: the response to a request that times out\<close>




subsection \<open>C2: which responses carry the access-control headers\<close>

text \<open>
  C2 says that with CORS enabled every response carries the access-control headers,
  the rejections included. The code does not do that. With the default options (CORS
  enabled, three headers computed for the request), \<open>GET /mcp\<close> is answered with
  status 405 and the \<open>Allow\<close> header alone, while the 500 response of the
  \<^verbatim>\<open>catch\<close> clause of the same function carries the three headers.
\<close>

theorem C2_rejection_without_cors_headers:
  "getCorsHeaders DEFAULT_OPTIONS get_request =
     Inr [(''Access-Control-Allow-Methods'', ''POST, OPTIONS''),
          (''Access-Control-Allow-Headers'', ''Content-Type, Authorization''),
          (''Access-Control-Allow-Origin'', ''*'')]
   \<and> handleRequest DEFAULT_OPTIONS Some Inr [silent_handler] get_request () =
       ([], Some (Inr \<lparr>status = 405, headers = [(''Allow'', ''POST, OPTIONS'')],
                       resp_body = Plain ''Method Not Allowed''\<rparr>))
   \<and> snd (handleRequest DEFAULT_OPTIONS Some Inr [failing_handler] post_request ()) =
       Some (Inr \<lparr>status = 500,
                  headers = [(''Content-Type'', ''application/json''),
                             (''Access-Control-Allow-Methods'', ''POST, OPTIONS''),
                             (''Access-Control-Allow-Headers'', ''Content-Type, Authorization''),
                             (''Access-Control-Allow-Origin'', ''*'')],
                  resp_body = JsonError (- 32603) ''Internal error'' ''boom''\<rparr>)"
proof -
  have rejected: "handleRequest DEFAULT_OPTIONS Some Inr [silent_handler] get_request () =
       ([], Some (Inr \<lparr>status = 405, headers = [(''Allow'', ''POST, OPTIONS'')],
                       resp_body = Plain ''Method Not Allowed''\<rparr>))"
    by (simp add: handleRequest_def DEFAULT_OPTIONS_def get_request_def)
  have "events (timeout DEFAULT_OPTIONS) (map (\<lambda>h. h ''{}'' ()) [failing_handler])
          = HandlerThrew (ErrorObj ''boom'' ''Error: boom at handler'') # [DeadlineTimer]"
    by (simp add: events_def sync_events_def schedule_def failing_handler_def)
  then have "processMessage DEFAULT_OPTIONS [failing_handler] ''{}'' () =
       (map Invoke [0..<length [failing_handler]],
        Some (Rejected (ErrorObj ''boom'' ''Error: boom at handler'')))"
    by (rule processMessage_first_throw)
  with accepted_post_request_default
  have "handleRequest DEFAULT_OPTIONS Some Inr [failing_handler] post_request () =
       (ReadBody # map Invoke [0..<length [failing_handler]]
          @ [ConsoleError (ErrorObj ''boom'' ''Error: boom at handler'')],
        Some (internal_error DEFAULT_OPTIONS post_request
                (ErrorObj ''boom'' ''Error: boom at handler'')))"
    by (rule handleRequest_rejected)
  then have failed: "snd (handleRequest DEFAULT_OPTIONS Some Inr [failing_handler]
                            post_request ()) =
       Some (Inr \<lparr>status = 500,
                  headers = [(''Content-Type'', ''application/json''),
                             (''Access-Control-Allow-Methods'', ''POST, OPTIONS''),
                             (''Access-Control-Allow-Headers'', ''Content-Type, Authorization''),
                             (''Access-Control-Allow-Origin'', ''*'')],
                  resp_body = JsonError (- 32603) ''Internal error'' ''boom''\<rparr>)"
    by (simp add: internal_error_def cors_default_options)
  show ?thesis
    by (intro conjI cors_default_options rejected failed)
qed

subsection \<open>C3: the order of the path check and the method check\<close>

text \<open>
  C3, as amended. The path check comes before the method check: a request whose
  method is neither POST nor OPTIONS is answered with status 405 and the header
  \<open>Allow: POST, OPTIONS\<close> when its path starts with the configured prefix, and with
  status 404 when it does not; no body is read and no handler is called.
\<close>

theorem C3_path_check_first:
  assumes "req_method request \<noteq> ''POST''" and "req_method request \<noteq> ''OPTIONS''"
  shows "handleRequest opts parse stringify handlers request env =
           ([], Some (Inr (if prefix (pathPrefix opts) (req_pathname request)
                           then \<lparr>status = 405, headers = [(''Allow'', ''POST, OPTIONS'')],
                                 resp_body = Plain ''Method Not Allowed''\<rparr>
                           else \<lparr>status = 404, headers = [],
                                 resp_body = Plain ''Not Found''\<rparr>)))"
  using assms by (simp add: handleRequest_def)

text \<open>
  The theorem at \<open>GET /mcp\<close>.
\<close>

theorem C3_path_check_first_witness:
  "req_method get_request \<noteq> ''POST'' \<and> req_method get_request \<noteq> ''OPTIONS''
   \<and> handleRequest DEFAULT_OPTIONS Some Inr [silent_handler] get_request () =
       ([], Some (Inr \<lparr>status = 405, headers = [(''Allow'', ''POST, OPTIONS'')],
                       resp_body = Plain ''Method Not Allowed''\<rparr>))"
proof -
  have m: "req_method get_request \<noteq> ''POST''" "req_method get_request \<noteq> ''OPTIONS''"
    by (simp_all add: get_request_def)
  have p: "prefix (pathPrefix DEFAULT_OPTIONS) (req_pathname get_request)"
    by (simp add: DEFAULT_OPTIONS_def get_request_def)
  from C3_path_check_first[OF m, of DEFAULT_OPTIONS Some Inr "[silent_handler]" "()"] p m
  show ?thesis by simp
qed

text \<open>
  C3 as stated fails: \<open>GET /unrelated\<close> is answered with status 404, not with 405.
\<close>

theorem C3_counterexample:
  "req_method get_unrelated \<noteq> ''POST'' \<and> req_method get_unrelated \<noteq> ''OPTIONS''
   \<and> \<not> prefix (pathPrefix DEFAULT_OPTIONS) (req_pathname get_unrelated)
   \<and> handleRequest DEFAULT_OPTIONS Some Inr [silent_handler] get_unrelated () =
       ([], Some (Inr \<lparr>status = 404, headers = [], resp_body = Plain ''Not Found''\<rparr>))"
  by (simp add: handleRequest_def DEFAULT_OPTIONS_def get_unrelated_def)

subsection \<open>C4: the first call of the sink wins\<close>

text \<open>
  C4. Resolution is one-shot and idempotent. The first call of the completion sink on a
  new exchange settles the fate of the promise (the value passed, or the fate of the
  thenable passed) and clears the deadline timer. After a call of the sink nothing
  changes the exchange again: not a second call of the sink, not any sequence of
  later events, and not a broadcast to any list of handlers. For a whole request:
  when the first thing that happens to the exchange is a call of the sink, during the
  broadcast or later from a callback, \<^verbatim>\<open>processMessage\<close> comes to the fate that
  this call settles, and if that is a value \<open>v\<close>, the one response is the 200 response
  for \<open>v\<close>, whatever the handlers do next and however many there are.
\<close>

theorem C4_one_shot_resolution:
  assumes "accepted opts parse request message"
    and "events (timeout opts) (map (\<lambda>h. h message env) handlers) = SinkCall first # evs"
    and "(case first of Value x \<Rightarrow> Fulfilled x | Thenable f \<Rightarrow> f) = Fulfilled v"
    and "stringify v = Inr serialized"
    and "getCorsHeaders opts request = Inr hs"
  shows "responseHandler a new_exchange =
           \<lparr>slot = Some (case a of Value x \<Rightarrow> Fulfilled x | Thenable f \<Rightarrow> f),
            deadline = Cleared\<rparr>
         \<and> responseHandler b (responseHandler a ex) = responseHandler a ex
         \<and> fold step later (responseHandler a ex) = responseHandler a ex
         \<and> broadcast others message env (responseHandler a ex) = responseHandler a ex
         \<and> snd (processMessage opts handlers message env) =
             Some (case first of Value x \<Rightarrow> Fulfilled x | Thenable f \<Rightarrow> f)
         \<and> snd (handleRequest opts parse stringify handlers request env) =
             Some (Inr \<lparr>status = 200,
                        headers = (''Content-Type'', ''application/json'') # hs,
                        resp_body = JsonText serialized\<rparr>)"
proof -
  have frozen: "slot (responseHandler a ex) \<noteq> None" "deadline (responseHandler a ex) \<noteq> Armed"
    using responseHandler_frozen[of a ex] by simp_all
  have second: "responseHandler b (responseHandler a ex) = responseHandler a ex"
    using frozen by (rule frozen_responseHandler)
  have events: "fold step later (responseHandler a ex) = responseHandler a ex"
    using frozen by (rule frozen_fold_step)
  have others: "broadcast others message env (responseHandler a ex) = responseHandler a ex"
    using frozen by (rule frozen_broadcast)
  have pm: "processMessage opts handlers message env =
              (map Invoke [0..<length handlers],
               Some (case first of Value x \<Rightarrow> Fulfilled x | Thenable f \<Rightarrow> f))"
    using assms(2) by (rule processMessage_first_sink_call)
  then have pm': "processMessage opts handlers message env =
              (map Invoke [0..<length handlers], Some (Fulfilled v))"
    by (simp only: assms(3))
  have "handleRequest opts parse stringify handlers request env =
          (ReadBody # map Invoke [0..<length handlers],
           Some (Inr \<lparr>status = 200,
                      headers = (''Content-Type'', ''application/json'') # hs,
                      resp_body = JsonText serialized\<rparr>))"
    using assms(1) pm' assms(4,5) by (rule handleRequest_fulfilled)
  with second events others pm show ?thesis
    by (simp add: responseHandler_new_exchange)
qed

text \<open>
  The theorem twice. First with four handlers: one that stays silent, one that calls
  the sink twice at once and again later, one that throws, and one that answers after
  the deadline. Then with a handler that returns at once and answers 20 ms later, as
  the engine does through \<^verbatim>\<open>send\<close>.
\<close>

theorem C4_one_shot_resolution_witness:
  "accepted list_options Some post_request ''{}''
   \<and> events (timeout list_options)
        (map (\<lambda>h. h ''{}'' ()) [silent_handler, replying_handler, failing_handler, late_handler])
       = SinkCall (Value ''first'') #
         [SinkCall (Value ''second''),
          HandlerThrew (ErrorObj ''boom'' ''Error: boom at handler''),
          SinkCall (Value ''third''), DeadlineTimer,
          SinkCall (Value ''late''), SinkCall (Value ''later'')]
   \<and> snd (handleRequest list_options Some Inr
             [silent_handler, replying_handler, failing_handler, late_handler] post_request ())
       = Some (Inr \<lparr>status = 200,
                    headers = [(''Content-Type'', ''application/json''),
                               (''Access-Control-Allow-Methods'', ''POST, OPTIONS''),
                               (''Access-Control-Allow-Headers'', ''Content-Type, Authorization''),
                               (''Access-Control-Allow-Credentials'', ''true'')],
                    resp_body = JsonText ''first''\<rparr>)
   \<and> events (timeout list_options) (map (\<lambda>h. h ''{}'' ()) [engine_handler, late_handler])
       = SinkCall (Value ''answer'') #
         [SinkCall (Value ''again''), DeadlineTimer,
          SinkCall (Value ''late''), SinkCall (Value ''later'')]
   \<and> snd (handleRequest list_options Some Inr [engine_handler, late_handler] post_request ())
       = Some (Inr \<lparr>status = 200,
                    headers = [(''Content-Type'', ''application/json''),
                               (''Access-Control-Allow-Methods'', ''POST, OPTIONS''),
                               (''Access-Control-Allow-Headers'', ''Content-Type, Authorization''),
                               (''Access-Control-Allow-Credentials'', ''true'')],
                    resp_body = JsonText ''answer''\<rparr>)
   \<and> responseHandler (Thenable Forever) (responseHandler (Value ''answer'') new_exchange)
       = \<lparr>slot = Some (Fulfilled ''answer''), deadline = Cleared\<rparr>"
proof -
  have f1: "(case Value ''first'' of Value x \<Rightarrow> Fulfilled x | Thenable f \<Rightarrow> f)
              = (Fulfilled ''first'' :: string fate)"
    and f2: "(case Value ''answer'' of Value x \<Rightarrow> Fulfilled x | Thenable f \<Rightarrow> f)
              = (Fulfilled ''answer'' :: string fate)"
    by simp_all
  have t1: "Inr ''first'' = (Inr ''first'' :: thrown + string)"
    and t2: "Inr ''answer'' = (Inr ''answer'' :: thrown + string)"
    by simp_all
  note sync = C4_one_shot_resolution[where stringify = Inr and message = "''{}''"
      and env = "()" and first = "Value ''first''" and v = "''first''"
      and serialized = "''first''"
      and handlers = "[silent_handler, replying_handler, failing_handler, late_handler]",
      OF accepted_post_request events_sync_first f1 t1 cors_list_options_post]
  note async = C4_one_shot_resolution[where stringify = Inr and message = "''{}''"
      and env = "()" and first = "Value ''answer''" and v = "''answer''"
      and serialized = "''answer''"
      and handlers = "[engine_handler, late_handler]"
      and a = "Value ''answer''" and b = "Thenable Forever" and ex = new_exchange,
      OF accepted_post_request events_async_first f2 t2 cors_list_options_post]
  from sync have r1: "snd (handleRequest list_options Some Inr
             [silent_handler, replying_handler, failing_handler, late_handler] post_request ())
       = Some (Inr \<lparr>status = 200,
                    headers = [(''Content-Type'', ''application/json''),
                               (''Access-Control-Allow-Methods'', ''POST, OPTIONS''),
                               (''Access-Control-Allow-Headers'', ''Content-Type, Authorization''),
                               (''Access-Control-Allow-Credentials'', ''true'')],
                    resp_body = JsonText ''first''\<rparr>)"
    by blast
  from async have r2: "snd (handleRequest list_options Some Inr [engine_handler, late_handler]
                              post_request ())
       = Some (Inr \<lparr>status = 200,
                    headers = [(''Content-Type'', ''application/json''),
                               (''Access-Control-Allow-Methods'', ''POST, OPTIONS''),
                               (''Access-Control-Allow-Headers'', ''Content-Type, Authorization''),
                               (''Access-Control-Allow-Credentials'', ''true'')],
                    resp_body = JsonText ''answer''\<rparr>)"
    by blast
  from async have a1: "responseHandler (Value ''answer'') new_exchange =
           \<lparr>slot = Some (case Value ''answer'' of Value x \<Rightarrow> Fulfilled x | Thenable f \<Rightarrow> f),
            deadline = Cleared\<rparr>"
    by (rule conjunct1)
  from async have a2: "responseHandler (Thenable Forever)
                         (responseHandler (Value ''answer'') new_exchange)
                       = responseHandler (Value ''answer'') new_exchange"
    by (rule conjunct1[OF conjunct2])
  have twice: "responseHandler (Thenable Forever)
                 (responseHandler (Value ''answer'') new_exchange)
               = \<lparr>slot = Some (Fulfilled ''answer''), deadline = Cleared\<rparr>"
    using trans[OF a2 a1] by simp
  show ?thesis
    by (intro conjI accepted_post_request events_sync_first r1 events_async_first r2 twice)
qed

subsection \<open>C5: a declared content length above the maximum\<close>

text \<open>
  C5, as amended. For every POST request on the prefix whose Content-Length header
  parses to a value greater than \<open>maxBodySize\<close>, the body is never read and no handler
  is called; the response has status 413 when the Content-Type header contains
  \<open>application/json\<close>, and status 400 otherwise, since the content type is checked
  first.
\<close>

theorem C5_declared_length_too_large:
  assumes "req_method request = ''POST''"
    and "prefix (pathPrefix opts) (req_pathname request)"
    and "req_headers request ''content-length'' = Some contentLength"
    and "parseInt contentLength = Some n"
    and "maxBodySize opts < n"
  shows "handleRequest opts parse stringify handlers request env =
           ([], Some (Inr (if json_content_type request
                           then \<lparr>status = 413, headers = [],
                                 resp_body = Plain ''Payload Too Large''\<rparr>
                           else \<lparr>status = 400, headers = [],
                                 resp_body =
                                   Plain ''Bad Request: Content-Type must be application/json''\<rparr>)))"
  using assms by (simp add: handleRequest_def too_large_def)

text \<open>
  The theorem at a JSON request that declares 2000000 bytes, against the default
  maximum of 1 MiB.
\<close>

theorem C5_declared_length_too_large_witness:
  "req_method oversized_json_request = ''POST''
   \<and> prefix (pathPrefix DEFAULT_OPTIONS) (req_pathname oversized_json_request)
   \<and> req_headers oversized_json_request ''content-length'' = Some ''2000000''
   \<and> parseInt ''2000000'' = Some 2000000
   \<and> maxBodySize DEFAULT_OPTIONS < 2000000
   \<and> json_content_type oversized_json_request
   \<and> handleRequest DEFAULT_OPTIONS Some Inr [replying_handler] oversized_json_request () =
       ([], Some (Inr \<lparr>status = 413, headers = [],
                       resp_body = Plain ''Payload Too Large''\<rparr>))"
proof -
  have a: "req_method oversized_json_request = ''POST''"
    and b: "prefix (pathPrefix DEFAULT_OPTIONS) (req_pathname oversized_json_request)"
    and c: "req_headers oversized_json_request ''content-length'' = Some ''2000000''"
    and d: "maxBodySize DEFAULT_OPTIONS < 2000000"
    and j: "json_content_type oversized_json_request"
    by (simp_all add: oversized_json_request_def DEFAULT_OPTIONS_def json_content_type_def
        sublist_code)
  from C5_declared_length_too_large[OF a b c parseInt_2000000 d, of Some Inr
      "[replying_handler]" "()"] a b c d j parseInt_2000000
  show ?thesis by simp
qed

text \<open>
  C5 as stated fails: the same declared length on a POST request without a
  Content-Type header is answered with status 400.
\<close>

theorem C5_counterexample:
  "req_method oversized_request = ''POST''
   \<and> prefix (pathPrefix DEFAULT_OPTIONS) (req_pathname oversized_request)
   \<and> req_headers oversized_request ''content-length'' = Some ''2000000''
   \<and> parseInt ''2000000'' = Some 2000000
   \<and> maxBodySize DEFAULT_OPTIONS < 2000000
   \<and> handleRequest DEFAULT_OPTIONS Some Inr [replying_handler] oversized_request () =
       ([], Some (Inr \<lparr>status = 400, headers = [],
                       resp_body =
                         Plain ''Bad Request: Content-Type must be application/json''\<rparr>))"
  by (simp add: parseInt_2000000)
     (simp add: handleRequest_def DEFAULT_OPTIONS_def oversized_request_def json_content_type_def)

subsection \<open>C6: the allow-origin header\<close>




subsection \<open>C7: a handler that throws during the broadcast\<close>



subsection \<open>C8: preflight requests on the prefix\<close>

text \<open>
  C8 says that an OPTIONS request on the prefix is answered with status 204 and the
  access-control headers when CORS is enabled. With an origin list in the options the
  code does so (\<open>preflight_with_origin_list\<close>). The constructor merges the options
  one level deep, though: after \<^verbatim>\<open>new WorkersTransport({ cors: { enabled: true } })\<close>
  the options have no origin list, and \<open>OPTIONS /mcp\<close> ends with a
  \<^verbatim>\<open>TypeError\<close> instead of a response.
\<close>

theorem C8_preflight_without_origin_list:
  "new_WorkersTransport enabled_only =
     \<lparr>pathPrefix = ''/mcp'',
      cors = Some \<lparr>enabled = Some True, origins = None, credentials = None\<rparr>,
      maxBodySize = 1024 * 1024,
      timeout = 30000\<rparr>
   \<and> req_method options_request = ''OPTIONS''
   \<and> prefix (pathPrefix (new_WorkersTransport enabled_only)) (req_pathname options_request)
   \<and> handleRequest (new_WorkersTransport enabled_only) Some Inr [silent_handler]
        options_request () =
       ([], Some (Inl (TypeError
                         ''Cannot read properties of undefined (reading 'includes')'')))"
  by (simp add: new_WorkersTransport_def enabled_only_def DEFAULT_OPTIONS_def
      options_request_def handleRequest_def handleCors_def getCorsHeaders_def)

subsection \<open>C9: a sink call after the deadline\<close>

text \<open>
  C9. When the deadline timer fires on a pending exchange, the promise is rejected
  with the timeout error, and no later sequence of events changes the exchange.
  For a whole request whose handlers neither throw nor reach the sink before the
  deadline, the one response (with the access-control headers \<open>hs\<close> of the request)
  is the timeout response, and the outcome is the one that the same handlers produce
  with their later sink calls left out.
\<close>

theorem C9_late_resolution_discarded:
  assumes "accepted opts parse request message"
    and "\<forall>h\<in>set handlers. no_call_before (timeout opts) (h message env)"
    and "\<forall>h\<in>set handlers. raises (h message env) = None"
    and "getCorsHeaders opts request = Inr hs"
  shows "timer_fires (new_exchange :: 'v exchange) =
           \<lparr>slot = Some (Rejected (new_Error ''Request timeout'')), deadline = Fired\<rparr>
         \<and> fold step evs (timer_fires (new_exchange :: 'v exchange)) = timer_fires new_exchange
         \<and> snd (handleRequest opts parse stringify handlers request env) =
             Some (Inr \<lparr>status = 500,
                        headers = (''Content-Type'', ''application/json'') # hs,
                        resp_body = JsonError (- 32603) ''Internal error'' ''Request timeout''\<rparr>)
         \<and> snd (handleRequest opts parse stringify handlers request env) =
             snd (handleRequest opts parse stringify (map without_later_calls handlers)
                    request env)"
proof -
  have fired: "timer_fires (new_exchange :: 'v exchange) =
           \<lparr>slot = Some (Rejected (new_Error ''Request timeout'')), deadline = Fired\<rparr>"
    by (rule timer_fires_new_exchange)
  have later: "fold step evs (timer_fires (new_exchange :: 'v exchange)) = timer_fires new_exchange"
    by (rule frozen_fold_step) (simp_all add: fired)
  have with_calls: "handleRequest opts parse stringify handlers request env =
      (ReadBody # map Invoke [0..<length handlers]
         @ [ConsoleError (new_Error ''Request timeout'')],
       Some (internal_error opts request (new_Error ''Request timeout'')))"
    using assms(1,2,3) by (rule handleRequest_deadline)
  have "handleRequest opts parse stringify (map without_later_calls handlers) request env =
      (ReadBody # map Invoke [0..<length (map without_later_calls handlers)]
         @ [ConsoleError (new_Error ''Request timeout'')],
       Some (internal_error opts request (new_Error ''Request timeout'')))"
    using assms(2,3)
    by (intro handleRequest_deadline[OF assms(1)])
       (simp_all add: without_later_calls_def no_call_before_def)
  with with_calls fired later show ?thesis
    by (simp add: internal_error_def new_Error_def assms(4))
qed

text \<open>
  The theorem at a 50 ms timeout, with a handler that calls the sink at 50 ms and at
  75 ms.
\<close>

theorem C9_late_resolution_discarded_witness:
  "accepted list_options Some post_request ''{}''
   \<and> no_call_before (timeout list_options) (silent_handler ''{}'' ())
   \<and> no_call_before (timeout list_options) (late_handler ''{}'' ())
   \<and> raises (silent_handler ''{}'' ()) = None
   \<and> raises (late_handler ''{}'' ()) = None
   \<and> later_calls (late_handler ''{}'' ()) = [(50, Value ''late''), (75, Value ''later'')]
   \<and> fold step [SinkCall (Value ''late''), SinkCall (Value ''later'')] (timer_fires new_exchange)
       = \<lparr>slot = Some (Rejected (new_Error ''Request timeout'')), deadline = Fired\<rparr>
   \<and> snd (handleRequest list_options Some Inr [silent_handler, late_handler] post_request ())
       = snd (handleRequest list_options Some Inr
                [without_later_calls silent_handler, without_later_calls late_handler]
                post_request ())"
proof -
  have n: "no_call_before (timeout list_options) (silent_handler ''{}'' ())"
      "no_call_before (timeout list_options) (late_handler ''{}'' ())"
    by (simp_all add: no_call_before_def list_options_def silent_handler_def late_handler_def)
  have r: "raises (silent_handler ''{}'' ()) = None" "raises (late_handler ''{}'' ()) = None"
    by (simp_all add: silent_handler_def late_handler_def)
  have l: "later_calls (late_handler ''{}'' ()) = [(50, Value ''late''), (75, Value ''later'')]"
    by (simp add: late_handler_def)
  from n have all: "\<forall>h\<in>set [silent_handler, late_handler].
      no_call_before (timeout list_options) (h ''{}'' ())"
    by simp
  from r have none: "\<forall>h\<in>set [silent_handler, late_handler]. raises (h ''{}'' ()) = None"
    by simp
  note c = C9_late_resolution_discarded[where message = "''{}''" and env = "()"
        and evs = "[SinkCall (Value ''late''), SinkCall (Value ''later'')]" and stringify = Inr
        and handlers = "[silent_handler, late_handler]"
        and opts = list_options and parse = Some and request = post_request,
      OF accepted_post_request all none cors_list_options_post]
  from c have c1: "timer_fires (new_exchange :: string exchange)
                     = \<lparr>slot = Some (Rejected (new_Error ''Request timeout'')),
                        deadline = Fired\<rparr>"
    by (rule conjunct1)
  from c have c2: "fold step [SinkCall (Value ''late''), SinkCall (Value ''later'')]
                     (timer_fires new_exchange)
                     = timer_fires new_exchange"
    by (rule conjunct1[OF conjunct2])
  from c have c4: "snd (handleRequest list_options Some Inr [silent_handler, late_handler]
                          post_request ())
       = snd (handleRequest list_options Some Inr
                (map without_later_calls [silent_handler, late_handler]) post_request ())"
    by (rule conjunct2[OF conjunct2[OF conjunct2]])
  have discarded: "fold step [SinkCall (Value ''late''), SinkCall (Value ''later'')]
                     (timer_fires new_exchange)
       = \<lparr>slot = Some (Rejected (new_Error ''Request timeout'')), deadline = Fired\<rparr>"
    by (rule trans[OF c2 c1])
  from c4 have same: "snd (handleRequest list_options Some Inr [silent_handler, late_handler]
                             post_request ())
       = snd (handleRequest list_options Some Inr
                [without_later_calls silent_handler, without_later_calls late_handler]
                post_request ())"
    by simp
  show ?thesis
    by (intro conjI accepted_post_request n r l discarded same)
qed

subsection \<open>C10: preflight requests on any path\<close>

text \<open>
  C10 says that every OPTIONS request, whatever its path, gets the preflight response
  (204 or 403) and never 404. The preflight branch does come first
  (\<open>preflight_before_path_check\<close>), but it reads the CORS options without a guard:
  when \<^verbatim>\<open>cors\<close> is undefined in the merged options, as it is for a transport
  that \<^verbatim>\<open>WorkersFastMCP\<close> builds from transport options without
  \<^verbatim>\<open>cors\<close>, \<open>OPTIONS /other\<close> ends with a \<^verbatim>\<open>TypeError\<close> instead of a
  response.
\<close>

theorem C10_preflight_without_cors:
  "new_WorkersTransport cors_undefined =
     \<lparr>pathPrefix = ''/mcp'', cors = None, maxBodySize = 1024 * 1024, timeout = 30000\<rparr>
   \<and> req_method options_elsewhere = ''OPTIONS''
   \<and> handleRequest (new_WorkersTransport cors_undefined) Some Inr [silent_handler]
        options_elsewhere () =
       ([], Some (Inl (TypeError
                         ''Cannot read properties of undefined (reading 'enabled')'')))"
  by (simp add: new_WorkersTransport_def cors_undefined_def DEFAULT_OPTIONS_def
      options_elsewhere_def handleRequest_def handleCors_def)

end
